theory Spec2Isabelle
  imports Main "HOL-Library.Product_Lexorder" "HOL-Library.Multiset"
begin

text \<open>
  The task tracker backend \<open>backend/app/app.py\<close>: the helpers \<open>user_exists\<close> and
  \<open>validate_priority\<close>, the table of tasks, and the handlers \<open>list_tasks\<close>,
  \<open>create_task\<close>, \<open>update_task\<close> and \<open>delete_task\<close>. A handler is a function of the
  request, of the table and of what the clock shows; it returns the response, or the
  \<open>HTTPException\<close> it raises, and where it writes, the table after the call.
\<close>

section \<open>Python values used by the service\<close>

text \<open>
  A Python \<open>str\<close> is modelled as a \<open>string\<close>; a character stands for the code point
  of the same number, so the strings covered are those over the code points 0..255.
  \<open>isspace\<close> is \<open>str.isspace\<close> on one character of that range, \<open>strip\<close> is
  \<open>str.strip()\<close> without arguments and \<open>lower\<close> is \<open>str.lower()\<close>.
\<close>

definition isspace :: "char \<Rightarrow> bool" where
  "isspace c =
     (let n = (of_char c :: nat)
      in (9 \<le> n \<and> n \<le> 13) \<or> (28 \<le> n \<and> n \<le> 32) \<or> n = 133 \<or> n = 160)"

definition strip :: "string \<Rightarrow> string" where
  "strip s = rev (dropWhile isspace (rev (dropWhile isspace s)))"

definition lower_char :: "char \<Rightarrow> char" where
  "lower_char c =
     (let n = (of_char c :: nat)
      in if (65 \<le> n \<and> n \<le> 90) \<or> (192 \<le> n \<and> n \<le> 214) \<or> (216 \<le> n \<and> n \<le> 222)
         then char_of (n + 32) else c)"

definition lower :: "string \<Rightarrow> string" where
  "lower s = map lower_char s"

text \<open>
  \<open>datetime\<close> values are UTC instants counted in microseconds, \<open>date\<close> values are
  day ordinals; both are compared as Python compares them.
\<close>

type_synonym datetime = int
type_synonym date = int

text \<open>\<open>HTTPException(status_code, detail)\<close>, the only exception the handlers raise.\<close>

datatype error = HTTPException (status_code: nat) (detail: string)

section \<open>Team members and priorities\<close>

text \<open>
  \<open>TEAM_MEMBERS\<close> (lines 16-21) as pairs of id and name, \<open>ALLOWED_PRIORITIES\<close> (line 24),
  \<open>user_exists\<close> (lines 27-33) and \<open>validate_priority\<close> (lines 36-47).
\<close>

definition TEAM_MEMBERS :: "(int \<times> string) list" where
  "TEAM_MEMBERS = [(1, ''Harry''), (2, ''John''), (3, ''Peter''), (4, ''Tom'')]"

definition ALLOWED_PRIORITIES :: "string set" where
  "ALLOWED_PRIORITIES = {''low'', ''medium'', ''high''}"

definition user_exists :: "int option \<Rightarrow> bool" where
  "user_exists user_id =
     (case user_id of
        None \<Rightarrow> False
      | Some u \<Rightarrow> list_ex (\<lambda>user. fst user = u) TEAM_MEMBERS)"

definition validate_priority :: "string option \<Rightarrow> error + string" where
  "validate_priority v =
     (case v of
        None \<Rightarrow> Inr ''medium''
      | Some s \<Rightarrow>
          (let val = lower s
           in if val \<notin> ALLOWED_PRIORITIES
              then Inl (HTTPException 400 ''priority must be one of low|medium|high'')
              else Inr val))"

section \<open>The task table and the request schemas\<close>

text \<open>
  The SQLModel class \<open>Task\<close>. The field \<open>id\<close> is written \<open>id'\<close>; it is \<open>None\<close> on an
  object that has not been inserted and the primary key afterwards.
\<close>

record Task =
  id' :: "int option"
  title :: string
  description :: string
  completed :: bool
  assignee_id :: "int option"
  priority :: string
  due_date :: "date option"
  created_at :: datetime
  updated_at :: datetime

text \<open>The request schema \<open>TaskCreate\<close> (fields prefixed with \<open>c_\<close>).\<close>

record TaskCreate =
  c_title :: string
  c_description :: string
  c_assignee_id :: "int option"
  c_priority :: string
  c_due_date :: "date option"

text \<open>The request schema \<open>TaskUpdate\<close> (fields prefixed with \<open>u_\<close>): every field is
  \<open>Optional\<close> with the default \<open>None\<close>.\<close>

record TaskUpdate =
  u_title :: "string option"
  u_description :: "string option"
  u_assignee_id :: "int option"
  u_completed :: "bool option"
  u_priority :: "string option"
  u_due_date :: "date option"

text \<open>
  A PATCH body as it arrives: each key is missing, carries JSON \<open>null\<close>, or carries a
  value. The schema \<open>TaskUpdate\<close> declares every field as \<open>Optional[...] = None\<close>, so a
  missing key takes the default \<open>None\<close> and \<open>null\<close> is read as \<open>None\<close> as well.
\<close>

datatype 'a json_field = Absent | Null | Value 'a

record TaskUpdateBody =
  b_title :: "string json_field"
  b_description :: "string json_field"
  b_assignee_id :: "int json_field"
  b_completed :: "bool json_field"
  b_priority :: "string json_field"
  b_due_date :: "date json_field"

fun optional_field :: "'a json_field \<Rightarrow> 'a option" where
  "optional_field Absent = None"
| "optional_field Null = None"
| "optional_field (Value v) = Some v"

definition parse_TaskUpdate :: "TaskUpdateBody \<Rightarrow> TaskUpdate" where
  "parse_TaskUpdate b =
     \<lparr>u_title = optional_field (b_title b),
      u_description = optional_field (b_description b),
      u_assignee_id = optional_field (b_assignee_id b),
      u_completed = optional_field (b_completed b),
      u_priority = optional_field (b_priority b),
      u_due_date = optional_field (b_due_date b)\<rparr>"

text \<open>
  The table is the list of its rows in storage order. \<open>session_get\<close> is
  \<open>session.get(Task, task_id)\<close>. \<open>insert_row\<close> is \<open>session.add\<close> and \<open>commit\<close> of a new
  object followed by \<open>refresh\<close>: the storage engine gives the row its key, here the
  largest key of the table plus one (1 on an empty table), as SQLite's rowid does.
  \<open>update_row\<close> is \<open>session.add\<close> and \<open>commit\<close> of an object the session has loaded, and
  \<open>delete_row\<close> is \<open>session.delete\<close> and \<open>commit\<close>.
\<close>

definition session_get :: "Task list \<Rightarrow> int \<Rightarrow> Task option" where
  "session_get db task_id = find (\<lambda>t. id' t = Some task_id) db"

definition next_id :: "Task list \<Rightarrow> int" where
  "next_id db = fold (\<lambda>t m. case id' t of None \<Rightarrow> m | Some i \<Rightarrow> max i m) db 0 + 1"

definition insert_row :: "Task list \<Rightarrow> Task \<Rightarrow> int \<times> Task list" where
  "insert_row db task = (let i = next_id db in (i, db @ [task\<lparr>id' := Some i\<rparr>]))"

definition update_row :: "Task list \<Rightarrow> Task \<Rightarrow> Task list" where
  "update_row db task = map (\<lambda>r. if id' r = id' task then task else r) db"

definition delete_row :: "Task list \<Rightarrow> Task \<Rightarrow> Task list" where
  "delete_row db task = filter (\<lambda>r. id' r \<noteq> id' task) db"

section \<open>GET /tasks\<close>

text \<open>
  \<open>list_tasks\<close> (lines 126-192). \<open>today\<close> is \<open>date.today()\<close>, read once when the call
  starts (line 137) and passed to every comparison. \<open>truthy\<close> is the test \<open>if search:\<close>
  and \<open>if priority:\<close> on an optional string: \<open>None\<close> and the empty string fail it.
  Each \<open>where\<close> clause of \<open>list_tasks\<close> is a predicate on a row. A comparison of a
  column that holds NULL is never true in SQL, so a row with a null column fails the
  clause. The containment match of the storage engine (\<open>Task.title.contains(search)\<close>)
  is the parameter \<open>contains\<close>.
\<close>

definition truthy :: "string option \<Rightarrow> bool" where
  "truthy v = (case v of None \<Rightarrow> False | Some s \<Rightarrow> s \<noteq> [])"

definition search_clause :: "(string \<Rightarrow> string \<Rightarrow> bool) \<Rightarrow> string option \<Rightarrow> Task \<Rightarrow> bool" where
  "search_clause contains search t =
     (if truthy search
      then contains (title t) (the search) \<or> contains (description t) (the search)
      else True)"

definition status_clause :: "string option \<Rightarrow> Task \<Rightarrow> bool" where
  "status_clause status t =
     (if status = Some ''complete'' then completed t = True
      else if status = Some ''incomplete'' then completed t = False
      else True)"

definition assignee_clause :: "int option \<Rightarrow> Task \<Rightarrow> bool" where
  "assignee_clause a t = (case a of None \<Rightarrow> True | Some i \<Rightarrow> assignee_id t = Some i)"

definition priority_clause :: "string option \<Rightarrow> error + (Task \<Rightarrow> bool)" where
  "priority_clause p =
     (if truthy p
      then (case validate_priority p of
              Inl e \<Rightarrow> Inl e
            | Inr pr \<Rightarrow> Inr (\<lambda>t. priority t = pr))
      else Inr (\<lambda>t. True))"

definition due_clause :: "date \<Rightarrow> string option \<Rightarrow> Task \<Rightarrow> bool" where
  "due_clause today due t =
     (if due = Some ''overdue''
      then due_date t \<noteq> None \<and> (case due_date t of None \<Rightarrow> False | Some d \<Rightarrow> d < today)
      else if due = Some ''today''
      then (case due_date t of None \<Rightarrow> False | Some d \<Rightarrow> d = today)
      else if due = Some ''upcoming''
      then due_date t \<noteq> None \<and> (case due_date t of None \<Rightarrow> False | Some d \<Rightarrow> today < d)
      else True)"

text \<open>
  \<open>order_by(Task.completed.asc(), Task.created_at.desc())\<close>: rows are sorted by the
  pair (completed, created_at negated), \<open>False\<close> before \<open>True\<close>; rows with equal keys
  stay in storage order.
\<close>

definition order_key :: "Task \<Rightarrow> bool \<times> int" where
  "order_key t = (completed t, - created_at t)"

text \<open>The body of the \<open>with Session\<close> block of \<open>list_tasks\<close>: the rows the query returns.\<close>

definition list_rows ::
  "(string \<Rightarrow> string \<Rightarrow> bool) \<Rightarrow> date \<Rightarrow> string option \<Rightarrow> string option \<Rightarrow> int option \<Rightarrow>
   string option \<Rightarrow> string option \<Rightarrow> Task list \<Rightarrow> error + Task list" where
  "list_rows contains today search status assignee prio due db =
     (case priority_clause prio of
        Inl e \<Rightarrow> Inl e
      | Inr priority_ok \<Rightarrow>
          Inr (sort_key order_key
                 (filter (\<lambda>t. search_clause contains search t \<and> status_clause status t \<and>
                               assignee_clause assignee t \<and> priority_ok t \<and>
                               due_clause today due t) db)))"

text \<open>The dictionary returned for one row: the row's fields and \<open>assignee_name\<close>.\<close>

record TaskView = Task +
  assignee_name :: string

definition user_map :: "int \<Rightarrow> string option" where
  "user_map = map_of TEAM_MEMBERS"

definition name_of :: "int option \<Rightarrow> string" where
  "name_of a =
     (case a of
        None \<Rightarrow> ''Unassigned''
      | Some i \<Rightarrow>
          if i = 0 then ''Unassigned''
          else (case user_map i of None \<Rightarrow> ''Unassigned'' | Some n \<Rightarrow> n))"

definition view :: "Task \<Rightarrow> TaskView" where
  "view t =
     \<lparr>id' = id' t, title = title t, description = description t, completed = completed t,
      assignee_id = assignee_id t, priority = priority t, due_date = due_date t,
      created_at = created_at t, updated_at = updated_at t,
      assignee_name = name_of (assignee_id t)\<rparr>"

definition list_tasks ::
  "(string \<Rightarrow> string \<Rightarrow> bool) \<Rightarrow> date \<Rightarrow> string option \<Rightarrow> string option \<Rightarrow> int option \<Rightarrow>
   string option \<Rightarrow> string option \<Rightarrow> Task list \<Rightarrow> error + TaskView list" where
  "list_tasks contains today search status assignee prio due db =
     (case list_rows contains today search status assignee prio due db of
        Inl e \<Rightarrow> Inl e
      | Inr rows \<Rightarrow> Inr (map view rows))"

section \<open>POST /tasks\<close>

text \<open>
  \<open>create_task\<close> (lines 196-220) returns the response (or the exception raised) and
  the table after the call. The two default factories of \<open>Task\<close> read the clock one after the other:
  \<open>now1\<close> becomes \<open>created_at\<close> and \<open>now2\<close> becomes \<open>updated_at\<close>.
\<close>

definition create_task ::
  "datetime \<Rightarrow> datetime \<Rightarrow> TaskCreate \<Rightarrow> Task list \<Rightarrow> (error + int) \<times> Task list" where
  "create_task now1 now2 payload db =
     (let title' = strip (c_title payload)
      in if title' = [] then (Inl (HTTPException 400 ''title is required''), db)
         else if \<not> user_exists (c_assignee_id payload)
         then (Inl (HTTPException 400 ''assignee_id is invalid''), db)
         else (case validate_priority (Some (c_priority payload)) of
                 Inl e \<Rightarrow> (Inl e, db)
               | Inr priority' \<Rightarrow>
                   (let task =
                          \<lparr>id' = None, title = title',
                           description =
                             strip (if c_description payload \<noteq> [] then c_description payload
                                    else []),
                           completed = False,
                           assignee_id = c_assignee_id payload,
                           priority = priority',
                           due_date = c_due_date payload,
                           created_at = now1, updated_at = now2\<rparr>;
                        (i, db') = insert_row db task
                    in (Inr i, db'))))"

section \<open>PATCH /tasks/{task_id}\<close>

text \<open>
  The six \<open>if payload.x is not None\<close> blocks of \<open>update_task\<close> (lines 232-253), each working on the
  object loaded by the session and each able to raise; \<open>and_then\<close> runs the next block
  only when the one before has not raised.
\<close>

definition and_then :: "error + 'a \<Rightarrow> ('a \<Rightarrow> error + 'b) \<Rightarrow> error + 'b" where
  "and_then r f = (case r of Inl e \<Rightarrow> Inl e | Inr x \<Rightarrow> f x)"

definition set_title :: "TaskUpdate \<Rightarrow> Task \<Rightarrow> error + Task" where
  "set_title payload task =
     (case u_title payload of
        None \<Rightarrow> Inr task
      | Some s \<Rightarrow>
          (let title' = strip s
           in if title' = [] then Inl (HTTPException 400 ''title cannot be empty'')
              else Inr (task\<lparr>title := title'\<rparr>)))"

definition set_description :: "TaskUpdate \<Rightarrow> Task \<Rightarrow> error + Task" where
  "set_description payload task =
     (case u_description payload of
        None \<Rightarrow> Inr task
      | Some s \<Rightarrow> Inr (task\<lparr>description := strip s\<rparr>))"

definition set_assignee_id :: "TaskUpdate \<Rightarrow> Task \<Rightarrow> error + Task" where
  "set_assignee_id payload task =
     (case u_assignee_id payload of
        None \<Rightarrow> Inr task
      | Some a \<Rightarrow>
          if \<not> user_exists (Some a) then Inl (HTTPException 400 ''assignee_id is invalid'')
          else Inr (task\<lparr>assignee_id := Some a\<rparr>))"

definition set_completed :: "TaskUpdate \<Rightarrow> Task \<Rightarrow> error + Task" where
  "set_completed payload task =
     (case u_completed payload of
        None \<Rightarrow> Inr task
      | Some c \<Rightarrow> Inr (task\<lparr>completed := c\<rparr>))"

definition set_priority :: "TaskUpdate \<Rightarrow> Task \<Rightarrow> error + Task" where
  "set_priority payload task =
     (case u_priority payload of
        None \<Rightarrow> Inr task
      | Some p \<Rightarrow>
          (case validate_priority (Some p) of
             Inl e \<Rightarrow> Inl e
           | Inr pr \<Rightarrow> Inr (task\<lparr>priority := pr\<rparr>)))"

definition set_due_date :: "TaskUpdate \<Rightarrow> Task \<Rightarrow> error + Task" where
  "set_due_date payload task =
     (case u_due_date payload of
        None \<Rightarrow> Inr task
      | Some d \<Rightarrow> Inr (task\<lparr>due_date := Some d\<rparr>))"

definition assign_fields :: "TaskUpdate \<Rightarrow> Task \<Rightarrow> error + Task" where
  "assign_fields payload task =
     and_then (and_then (and_then (and_then (and_then
       (set_title payload task)
       (set_description payload))
       (set_assignee_id payload))
       (set_completed payload))
       (set_priority payload))
       (set_due_date payload)"

text \<open>
  \<open>update_task\<close> returns the response (or the exception raised) and the table after the
  call. An exception leaves the \<open>with Session\<close> block before \<open>commit\<close>, so the table is
  the one the call started with.
\<close>

definition update_task ::
  "datetime \<Rightarrow> int \<Rightarrow> TaskUpdate \<Rightarrow> Task list \<Rightarrow> (error + bool) \<times> Task list" where
  "update_task now task_id payload db =
     (case session_get db task_id of
        None \<Rightarrow> (Inl (HTTPException 404 ''Task not found''), db)
      | Some task \<Rightarrow>
          (case assign_fields payload task of
             Inl e \<Rightarrow> (Inl e, db)
           | Inr task' \<Rightarrow> (Inr True, update_row db (task'\<lparr>updated_at := now\<rparr>))))"

section \<open>DELETE /tasks/{task_id}\<close>

text \<open>\<open>delete_task\<close> (lines 265-277).\<close>

definition delete_task :: "int \<Rightarrow> Task list \<Rightarrow> (error + bool) \<times> Task list" where
  "delete_task task_id db =
     (case session_get db task_id of
        None \<Rightarrow> (Inl (HTTPException 404 ''Task not found''), db)
      | Some task \<Rightarrow> (Inr True, delete_row db task))"

section \<open>Sequences of requests\<close>

text \<open>
  A request that changes the table, with the times the clock shows when the handler
  reads it: \<open>create_task\<close> reads it twice, \<open>update_task\<close> once, \<open>delete_task\<close> never.
  \<open>step\<close> is the table after the request; a request that raises leaves the table as it
  was. The service starts on the empty table.
\<close>

datatype request =
    Create datetime datetime TaskCreate
  | Update datetime int TaskUpdate
  | Delete int

fun step :: "request \<Rightarrow> Task list \<Rightarrow> Task list" where
  "step (Create now1 now2 payload) db = snd (create_task now1 now2 payload db)"
| "step (Update now task_id payload) db = snd (update_task now task_id payload db)"
| "step (Delete task_id) db = snd (delete_task task_id db)"

fun clock_reads :: "request \<Rightarrow> datetime list" where
  "clock_reads (Create now1 now2 payload) = [now1, now2]"
| "clock_reads (Update now task_id payload) = [now]"
| "clock_reads (Delete task_id) = []"

text \<open>
  The invariants of a stored task that concern its title, its assignee and its
  priority, as one predicate.
\<close>

definition valid_fields :: "Task \<Rightarrow> bool" where
  "valid_fields t \<longleftrightarrow>
     title t \<noteq> [] \<and> \<not> list_all isspace (title t) \<and>
     (assignee_id t = None \<or> user_exists (assignee_id t)) \<and>
     priority t \<in> {''low'', ''medium'', ''high''}"

section \<open>Auxiliary facts about the handlers\<close>

lemma and_then_Inr_iff: "and_then r f = Inr y \<longleftrightarrow> (\<exists>x. r = Inr x \<and> f x = Inr y)"
  by (cases r) (simp_all add: and_then_def)

lemma and_then_Inl_iff: "and_then r f = Inl e \<longleftrightarrow> (r = Inl e \<or> (\<exists>x. r = Inr x \<and> f x = Inl e))"
  by (cases r) (simp_all add: and_then_def)

lemma validate_priority_Some:
  "validate_priority (Some s) =
     (if lower s = ''low'' \<or> lower s = ''medium'' \<or> lower s = ''high'' then Inr (lower s)
      else Inl (HTTPException 400 ''priority must be one of low|medium|high''))"
  by (simp add: validate_priority_def ALLOWED_PRIORITIES_def Let_def)

lemma set_title_Inr:
  "set_title p t = Inr t' \<longleftrightarrow>
     (case u_title p of None \<Rightarrow> t' = t | Some s \<Rightarrow> strip s \<noteq> [] \<and> t' = t\<lparr>title := strip s\<rparr>)"
  by (auto simp: set_title_def Let_def split: option.splits)

lemma set_description_Inr:
  "set_description p t = Inr t' \<longleftrightarrow>
     (case u_description p of None \<Rightarrow> t' = t | Some s \<Rightarrow> t' = t\<lparr>description := strip s\<rparr>)"
  by (auto simp: set_description_def split: option.splits)

lemma set_assignee_id_Inr:
  "set_assignee_id p t = Inr t' \<longleftrightarrow>
     (case u_assignee_id p of None \<Rightarrow> t' = t
      | Some a \<Rightarrow> user_exists (Some a) \<and> t' = t\<lparr>assignee_id := Some a\<rparr>)"
  by (auto simp: set_assignee_id_def split: option.splits)

lemma set_completed_Inr:
  "set_completed p t = Inr t' \<longleftrightarrow>
     (case u_completed p of None \<Rightarrow> t' = t | Some c \<Rightarrow> t' = t\<lparr>completed := c\<rparr>)"
  by (auto simp: set_completed_def split: option.splits)

lemma set_priority_Inr:
  "set_priority p t = Inr t' \<longleftrightarrow>
     (case u_priority p of None \<Rightarrow> t' = t
      | Some s \<Rightarrow> lower s \<in> {''low'', ''medium'', ''high''} \<and> t' = t\<lparr>priority := lower s\<rparr>)"
  by (auto simp: set_priority_def validate_priority_Some split: option.splits)

lemma set_due_date_Inr:
  "set_due_date p t = Inr t' \<longleftrightarrow>
     (case u_due_date p of None \<Rightarrow> t' = t | Some d \<Rightarrow> t' = t\<lparr>due_date := Some d\<rparr>)"
  by (auto simp: set_due_date_def split: option.splits)

lemma assign_fields_Inr:
  assumes "assign_fields p t = Inr t'"
  shows "id' t' = id' t"
    and "title t' = (case u_title p of None \<Rightarrow> title t | Some s \<Rightarrow> strip s)"
    and "description t' = (case u_description p of None \<Rightarrow> description t | Some s \<Rightarrow> strip s)"
    and "assignee_id t' = (case u_assignee_id p of None \<Rightarrow> assignee_id t | Some a \<Rightarrow> Some a)"
    and "completed t' = (case u_completed p of None \<Rightarrow> completed t | Some c \<Rightarrow> c)"
    and "priority t' = (case u_priority p of None \<Rightarrow> priority t | Some s \<Rightarrow> lower s)"
    and "due_date t' = (case u_due_date p of None \<Rightarrow> due_date t | Some d \<Rightarrow> Some d)"
    and "created_at t' = created_at t"
    and "updated_at t' = updated_at t"
proof -
  from assms obtain t1 t2 t3 t4 t5 where
    s: "set_title p t = Inr t1" "set_description p t1 = Inr t2" "set_assignee_id p t2 = Inr t3"
       "set_completed p t3 = Inr t4" "set_priority p t4 = Inr t5" "set_due_date p t5 = Inr t'"
    unfolding assign_fields_def and_then_Inr_iff by blast
  have 1: "t1 = (case u_title p of None \<Rightarrow> t | Some s \<Rightarrow> t\<lparr>title := strip s\<rparr>)"
    using s(1) by (simp add: set_title_Inr split: option.splits)
  have 2: "t2 = (case u_description p of None \<Rightarrow> t1 | Some s \<Rightarrow> t1\<lparr>description := strip s\<rparr>)"
    using s(2) by (simp add: set_description_Inr split: option.splits)
  have 3: "t3 = (case u_assignee_id p of None \<Rightarrow> t2 | Some a \<Rightarrow> t2\<lparr>assignee_id := Some a\<rparr>)"
    using s(3) by (simp add: set_assignee_id_Inr split: option.splits)
  have 4: "t4 = (case u_completed p of None \<Rightarrow> t3 | Some c \<Rightarrow> t3\<lparr>completed := c\<rparr>)"
    using s(4) by (simp add: set_completed_Inr split: option.splits)
  have 5: "t5 = (case u_priority p of None \<Rightarrow> t4 | Some s \<Rightarrow> t4\<lparr>priority := lower s\<rparr>)"
    using s(5) by (simp add: set_priority_Inr split: option.splits)
  have 6: "t' = (case u_due_date p of None \<Rightarrow> t5 | Some d \<Rightarrow> t5\<lparr>due_date := Some d\<rparr>)"
    using s(6) by (simp add: set_due_date_Inr split: option.splits)
  show "id' t' = id' t" by (simp add: 1 2 3 4 5 6 split: option.splits)
  show "title t' = (case u_title p of None \<Rightarrow> title t | Some s \<Rightarrow> strip s)"
    by (simp add: 1 2 3 4 5 6 split: option.splits)
  show "description t' = (case u_description p of None \<Rightarrow> description t | Some s \<Rightarrow> strip s)"
    by (simp add: 1 2 3 4 5 6 split: option.splits)
  show "assignee_id t' = (case u_assignee_id p of None \<Rightarrow> assignee_id t | Some a \<Rightarrow> Some a)"
    by (simp add: 1 2 3 4 5 6 split: option.splits)
  show "completed t' = (case u_completed p of None \<Rightarrow> completed t | Some c \<Rightarrow> c)"
    by (simp add: 1 2 3 4 5 6 split: option.splits)
  show "priority t' = (case u_priority p of None \<Rightarrow> priority t | Some s \<Rightarrow> lower s)"
    by (simp add: 1 2 3 4 5 6 split: option.splits)
  show "due_date t' = (case u_due_date p of None \<Rightarrow> due_date t | Some d \<Rightarrow> Some d)"
    by (simp add: 1 2 3 4 5 6 split: option.splits)
  show "created_at t' = created_at t" by (simp add: 1 2 3 4 5 6 split: option.splits)
  show "updated_at t' = updated_at t" by (simp add: 1 2 3 4 5 6 split: option.splits)
qed

lemma session_get_Some: "session_get db i = Some t \<Longrightarrow> t \<in> set db \<and> id' t = Some i"
  unfolding session_get_def by (auto simp: find_Some_iff)

lemma session_get_update_row:
  assumes "session_get db i = Some t" and "id' t' = Some i"
  shows "session_get (update_row db t') i = Some t'"
  using assms unfolding session_get_def update_row_def
  by (induction db) (auto split: if_splits)

lemma update_task_Inr:
  assumes "session_get db i = Some t" and "update_task now i p db = (Inr r, db')"
  shows "\<exists>t'. assign_fields p t = Inr t' \<and> db' = update_row db (t'\<lparr>updated_at := now\<rparr>) \<and>
              session_get db' i = Some (t'\<lparr>updated_at := now\<rparr>)"
proof -
  from assms obtain t' where
    a: "assign_fields p t = Inr t'" and d: "db' = update_row db (t'\<lparr>updated_at := now\<rparr>)"
    by (auto simp: update_task_def split: sum.splits)
  have "id' t = Some i" using assms(1) by (simp add: session_get_Some)
  then have "id' (t'\<lparr>updated_at := now\<rparr>) = Some i"
    using assign_fields_Inr(1)[OF a] by simp
  then show ?thesis
    using a d session_get_update_row[OF assms(1)] by blast
qed

lemma assign_fields_invalid:
  assumes "(\<exists>s. u_title p = Some s \<and> strip s = []) \<or>
           (\<exists>a. u_assignee_id p = Some a \<and> \<not> user_exists (Some a)) \<or>
           (\<exists>s. u_priority p = Some s \<and> lower s \<notin> {''low'', ''medium'', ''high''})"
  shows "\<exists>d. assign_fields p t = Inl (HTTPException 400 d)"
proof (cases "assign_fields p t")
  case (Inl e)
  have "status_code e = 400"
    using Inl unfolding assign_fields_def and_then_Inl_iff
    by (auto simp: set_title_def set_description_def set_assignee_id_def set_completed_def
        set_priority_def set_due_date_def validate_priority_Some Let_def
        split: option.splits if_splits)
  then show ?thesis using Inl by (cases e) auto
next
  case (Inr t')
  then obtain t1 t2 t3 t4 t5 where
    s: "set_title p t = Inr t1" "set_description p t1 = Inr t2" "set_assignee_id p t2 = Inr t3"
       "set_completed p t3 = Inr t4" "set_priority p t4 = Inr t5" "set_due_date p t5 = Inr t'"
    unfolding assign_fields_def and_then_Inr_iff by blast
  from assms s(1) s(3) s(5) have False
    by (auto simp: set_title_Inr set_assignee_id_Inr set_priority_Inr split: option.splits)
  then show ?thesis ..
qed

section \<open>Priority validation\<close>

text \<open>
  Claim C7. \<open>validate_priority(None)\<close> returns \<open>"medium"\<close>. For a string, the value is
  lower-cased; the lower-cased value is returned when it is one of \<open>low\<close>, \<open>medium\<close>,
  \<open>high\<close>, and otherwise the call raises \<open>HTTPException\<close> with status 400. In particular
  \<open>"HIGH"\<close> gives \<open>"high"\<close> and \<open>"urgent"\<close> is rejected.
\<close>
theorem validate_priority_spec:
  "validate_priority None = Inr ''medium'' \<and>
   (\<forall>s. validate_priority (Some s) =
      (if lower s = ''low'' \<or> lower s = ''medium'' \<or> lower s = ''high'' then Inr (lower s)
       else Inl (HTTPException 400 ''priority must be one of low|medium|high''))) \<and>
   validate_priority (Some ''HIGH'') = Inr ''high'' \<and>
   validate_priority (Some ''urgent'') =
     Inl (HTTPException 400 ''priority must be one of low|medium|high'')"
proof -
  have "validate_priority None = Inr ''medium''"
    by (simp add: validate_priority_def)
  moreover have "validate_priority (Some ''HIGH'') = Inr ''high''"
    by code_simp
  moreover have "validate_priority (Some ''urgent'') =
      Inl (HTTPException 400 ''priority must be one of low|medium|high'')"
    by code_simp
  ultimately show ?thesis
    using validate_priority_Some by blast
qed

text \<open>The claim's theorem at the mixed-case value \<open>"Low"\<close>.\<close>

theorem validate_priority_spec_witness:
  "validate_priority (Some ''Low'') = Inr ''low''"
proof -
  have l: "lower ''Low'' = ''low''" by code_simp
  from validate_priority_spec have
    "validate_priority (Some ''Low'') =
      (if lower ''Low'' = ''low'' \<or> lower ''Low'' = ''medium'' \<or> lower ''Low'' = ''high''
       then Inr (lower ''Low'')
       else Inl (HTTPException 400 ''priority must be one of low|medium|high''))"
    by blast
  then show ?thesis by (simp add: l)
qed

section \<open>Creating a task\<close>

text \<open>
  Claim C1 says that a create request with a valid title and priority and no
  \<open>assignee_id\<close> succeeds. The handler calls \<open>user_exists\<close> on the payload's
  \<open>assignee_id\<close> without testing it for \<open>None\<close> first, and \<open>user_exists(None)\<close> is
  \<open>False\<close>: every request with a non-blank title and no assignee is rejected with
  status 400 and nothing is stored.
\<close>
theorem create_task_without_assignee:
  assumes "strip (c_title payload) \<noteq> []" and "c_assignee_id payload = None"
  shows "create_task now1 now2 payload db =
           (Inl (HTTPException 400 ''assignee_id is invalid''), db)"
  using assms by (simp add: create_task_def user_exists_def)

text \<open>A request with title \<open>"a"\<close>, priority \<open>"medium"\<close> and no assignee on the empty table.\<close>

theorem create_task_without_assignee_witness:
  "strip ''a'' \<noteq> [] \<and> validate_priority (Some ''medium'') = Inr ''medium'' \<and>
   create_task 1 2
     \<lparr>c_title = ''a'', c_description = [], c_assignee_id = None, c_priority = ''medium'',
      c_due_date = None\<rparr> [] =
   (Inl (HTTPException 400 ''assignee_id is invalid''), [])"
proof -
  have t: "strip ''a'' \<noteq> []" by code_simp
  have v: "validate_priority (Some ''medium'') = Inr ''medium''" by code_simp
  show ?thesis
    using t v create_task_without_assignee[of
        "\<lparr>c_title = ''a'', c_description = [], c_assignee_id = None, c_priority = ''medium'',
          c_due_date = None\<rparr>" 1 2 "[]"]
    by simp
qed

section \<open>Updating a task\<close>

text \<open>
  Claim C2. When the task exists and a present field of the update fails its validation
  (a title that is empty after stripping, an assignee that is not a team member, a
  priority that is not recognised after lower-casing), \<open>update_task\<close> raises
  \<open>HTTPException\<close> with status 400 and the table is the one before the call, whatever
  fields earlier blocks had already assigned on the loaded object.
\<close>
theorem update_task_invalid_persists_nothing:
  assumes "session_get db task_id = Some task"
    and "(\<exists>s. u_title payload = Some s \<and> strip s = []) \<or>
         (\<exists>a. u_assignee_id payload = Some a \<and> \<not> user_exists (Some a)) \<or>
         (\<exists>s. u_priority payload = Some s \<and> lower s \<notin> {''low'', ''medium'', ''high''})"
  shows "\<exists>d. update_task now task_id payload db = (Inl (HTTPException 400 d), db)"
proof -
  from assign_fields_invalid[OF assms(2)] obtain d where
    "assign_fields payload task = Inl (HTTPException 400 d)" by blast
  then show ?thesis using assms(1) by (simp add: update_task_def)
qed

text \<open>
  An update whose title \<open>"b"\<close> is accepted and assigned on the loaded object and whose
  assignee 9 is then rejected: the stored row keeps the title \<open>"a"\<close>.
\<close>

theorem update_task_invalid_persists_nothing_witness:
  "set_title
     \<lparr>u_title = Some ''b'', u_description = None, u_assignee_id = Some 9, u_completed = None,
      u_priority = None, u_due_date = None\<rparr>
     \<lparr>id' = Some 1, title = ''a'', description = [], completed = False,
      assignee_id = Some 1, priority = ''low'', due_date = None, created_at = 3,
      updated_at = 3\<rparr> =
   Inr \<lparr>id' = Some 1, title = ''b'', description = [], completed = False,
        assignee_id = Some 1, priority = ''low'', due_date = None, created_at = 3,
        updated_at = 3\<rparr> \<and>
   update_task 7 1
     \<lparr>u_title = Some ''b'', u_description = None, u_assignee_id = Some 9, u_completed = None,
      u_priority = None, u_due_date = None\<rparr>
     [\<lparr>id' = Some 1, title = ''a'', description = [], completed = False,
       assignee_id = Some 1, priority = ''low'', due_date = None, created_at = 3,
       updated_at = 3\<rparr>] =
   (Inl (HTTPException 400 ''assignee_id is invalid''),
    [\<lparr>id' = Some 1, title = ''a'', description = [], completed = False,
       assignee_id = Some 1, priority = ''low'', due_date = None, created_at = 3,
       updated_at = 3\<rparr>])"
proof -
  let ?p = "\<lparr>u_title = Some ''b'', u_description = None, u_assignee_id = Some 9,
             u_completed = None, u_priority = None, u_due_date = None\<rparr>"
  let ?t = "\<lparr>id' = Some 1, title = ''a'', description = [], completed = False,
       assignee_id = Some 1, priority = ''low'', due_date = None, created_at = 3,
       updated_at = 3\<rparr>"
  have g: "session_get [?t] 1 = Some ?t" by (simp add: session_get_def)
  have u: "\<not> user_exists (Some 9)" by (simp add: user_exists_def TEAM_MEMBERS_def)
  have s: "strip ''b'' = ''b''" by code_simp
  have st: "set_title ?p ?t = Inr (?t\<lparr>title := ''b''\<rparr>)"
    by (simp add: set_title_def s)
  from update_task_invalid_persists_nothing[OF g, of ?p 7] u
  obtain d where d: "update_task 7 1 ?p [?t] = (Inl (HTTPException 400 d), [?t])"
    by auto
  have "update_task 7 1 ?p [?t] = (Inl (HTTPException 400 ''assignee_id is invalid''), [?t])"
    using d by (simp add: update_task_def g assign_fields_def and_then_def st
        set_description_def set_assignee_id_def u)
  then show ?thesis using st by simp
qed

lemma optional_field_case:
  "(case optional_field f of None \<Rightarrow> a | Some v \<Rightarrow> g v) = (case f of Value v \<Rightarrow> g v | _ \<Rightarrow> a)"
  by (cases f) simp_all

text \<open>
  Claim C3 says that a field sent with an explicit \<open>null\<close> is treated as present and not
  as untouched. The schema reads a missing key and \<open>null\<close> both as \<open>None\<close>, and every
  block of \<open>update_task\<close> tests \<open>is not None\<close>: a stored due date 5 survives an update
  whose body carries \<open>"due_date": null\<close>, and the call does exactly what the call without
  the key does.
\<close>

theorem update_task_null_counterexample:
  "update_task 7 1
     (parse_TaskUpdate
        \<lparr>b_title = Absent, b_description = Absent, b_assignee_id = Absent,
         b_completed = Absent, b_priority = Absent, b_due_date = Null\<rparr>)
     [\<lparr>id' = Some 1, title = ''a'', description = [], completed = False,
       assignee_id = Some 1, priority = ''low'', due_date = Some 5, created_at = 3,
       updated_at = 3\<rparr>] =
   (Inr True,
    [\<lparr>id' = Some 1, title = ''a'', description = [], completed = False,
       assignee_id = Some 1, priority = ''low'', due_date = Some 5, created_at = 3,
       updated_at = 7\<rparr>]) \<and>
   update_task 7 1
     (parse_TaskUpdate
        \<lparr>b_title = Absent, b_description = Absent, b_assignee_id = Absent,
         b_completed = Absent, b_priority = Absent, b_due_date = Absent\<rparr>)
     [\<lparr>id' = Some 1, title = ''a'', description = [], completed = False,
       assignee_id = Some 1, priority = ''low'', due_date = Some 5, created_at = 3,
       updated_at = 3\<rparr>] =
   (Inr True,
    [\<lparr>id' = Some 1, title = ''a'', description = [], completed = False,
       assignee_id = Some 1, priority = ''low'', due_date = Some 5, created_at = 3,
       updated_at = 7\<rparr>])"
  by (simp add: update_task_def parse_TaskUpdate_def session_get_def assign_fields_def
      and_then_def set_title_def set_description_def set_assignee_id_def set_completed_def
      set_priority_def set_due_date_def update_row_def)

text \<open>
  Claim C3 as amended. After a successful update of an existing task, each of the six
  fields of the stored row is untouched when the body has no key for it or the key
  carries \<open>null\<close>, and holds the value sent otherwise: the stripped title and
  description, the assignee, the completed flag (also \<open>false\<close>), the lower-cased
  priority and the due date.
\<close>

theorem update_task_fields:
  assumes "session_get db task_id = Some task"
    and "update_task now task_id (parse_TaskUpdate body) db = (Inr r, db')"
  shows "\<exists>task'. session_get db' task_id = Some task' \<and>
     title task' = (case b_title body of Value s \<Rightarrow> strip s | _ \<Rightarrow> title task) \<and>
     description task' =
       (case b_description body of Value s \<Rightarrow> strip s | _ \<Rightarrow> description task) \<and>
     assignee_id task' =
       (case b_assignee_id body of Value a \<Rightarrow> Some a | _ \<Rightarrow> assignee_id task) \<and>
     completed task' = (case b_completed body of Value c \<Rightarrow> c | _ \<Rightarrow> completed task) \<and>
     priority task' = (case b_priority body of Value s \<Rightarrow> lower s | _ \<Rightarrow> priority task) \<and>
     due_date task' = (case b_due_date body of Value d \<Rightarrow> Some d | _ \<Rightarrow> due_date task)"
proof -
  let ?p = "parse_TaskUpdate body"
  from update_task_Inr[OF assms] obtain t' where
    a: "assign_fields ?p task = Inr t'" and
    g: "session_get db' task_id = Some (t'\<lparr>updated_at := now\<rparr>)"
    by blast
  have u: "u_title ?p = optional_field (b_title body)"
    "u_description ?p = optional_field (b_description body)"
    "u_assignee_id ?p = optional_field (b_assignee_id body)"
    "u_completed ?p = optional_field (b_completed body)"
    "u_priority ?p = optional_field (b_priority body)"
    "u_due_date ?p = optional_field (b_due_date body)"
    by (simp_all add: parse_TaskUpdate_def)
  note f = assign_fields_Inr[OF a, unfolded u optional_field_case]
  have "title (t'\<lparr>updated_at := now\<rparr>) =
          (case b_title body of Value s \<Rightarrow> strip s | _ \<Rightarrow> title task)"
    using f(2) by simp
  moreover have "description (t'\<lparr>updated_at := now\<rparr>) =
          (case b_description body of Value s \<Rightarrow> strip s | _ \<Rightarrow> description task)"
    using f(3) by simp
  moreover have "assignee_id (t'\<lparr>updated_at := now\<rparr>) =
          (case b_assignee_id body of Value a \<Rightarrow> Some a | _ \<Rightarrow> assignee_id task)"
    using f(4) by simp
  moreover have "completed (t'\<lparr>updated_at := now\<rparr>) =
          (case b_completed body of Value c \<Rightarrow> c | _ \<Rightarrow> completed task)"
    using f(5) by simp
  moreover have "priority (t'\<lparr>updated_at := now\<rparr>) =
          (case b_priority body of Value s \<Rightarrow> lower s | _ \<Rightarrow> priority task)"
    using f(6) by simp
  moreover have "due_date (t'\<lparr>updated_at := now\<rparr>) =
          (case b_due_date body of Value d \<Rightarrow> Some d | _ \<Rightarrow> due_date task)"
    using f(7) by simp
  ultimately show ?thesis using g by blast
qed

text \<open>
  A body that sets \<open>completed\<close> to \<open>false\<close> on a completed task, sends \<open>null\<close> for the
  assignee and leaves the other keys out.
\<close>

theorem update_task_fields_witness:
  "session_get
     [\<lparr>id' = Some 1, title = ''a'', description = [], completed = True,
       assignee_id = Some 1, priority = ''low'', due_date = Some 5, created_at = 3,
       updated_at = 3\<rparr>] 1 =
   Some \<lparr>id' = Some 1, title = ''a'', description = [], completed = True,
       assignee_id = Some 1, priority = ''low'', due_date = Some 5, created_at = 3,
       updated_at = 3\<rparr> \<and>
   update_task 7 1
     (parse_TaskUpdate
        \<lparr>b_title = Absent, b_description = Absent, b_assignee_id = Null,
         b_completed = Value False, b_priority = Absent, b_due_date = Absent\<rparr>)
     [\<lparr>id' = Some 1, title = ''a'', description = [], completed = True,
       assignee_id = Some 1, priority = ''low'', due_date = Some 5, created_at = 3,
       updated_at = 3\<rparr>] =
   (Inr True,
    [\<lparr>id' = Some 1, title = ''a'', description = [], completed = False,
       assignee_id = Some 1, priority = ''low'', due_date = Some 5, created_at = 3,
       updated_at = 7\<rparr>]) \<and>
   (\<exists>task'.
      session_get
        [\<lparr>id' = Some 1, title = ''a'', description = [], completed = False,
          assignee_id = Some 1, priority = ''low'', due_date = Some 5, created_at = 3,
          updated_at = 7\<rparr>] 1 = Some task' \<and>
      completed task' = False \<and> assignee_id task' = Some 1 \<and> title task' = ''a'')"
proof -
  let ?t = "\<lparr>id' = Some 1, title = ''a'', description = [], completed = True,
       assignee_id = Some 1, priority = ''low'', due_date = Some 5, created_at = 3,
       updated_at = 3\<rparr>"
  let ?b = "\<lparr>b_title = Absent, b_description = Absent, b_assignee_id = Null,
         b_completed = Value False, b_priority = Absent, b_due_date = Absent\<rparr>"
  let ?t' = "\<lparr>id' = Some 1, title = ''a'', description = [], completed = False,
       assignee_id = Some 1, priority = ''low'', due_date = Some 5, created_at = 3,
       updated_at = 7\<rparr>"
  have g: "session_get [?t] 1 = Some ?t" by (simp add: session_get_def)
  have u: "update_task 7 1 (parse_TaskUpdate ?b) [?t] = (Inr True, [?t'])"
    by (simp add: update_task_def parse_TaskUpdate_def session_get_def assign_fields_def
      and_then_def set_title_def set_description_def set_assignee_id_def set_completed_def
      set_priority_def set_due_date_def update_row_def)
  from update_task_fields[OF g u] have
    "\<exists>task'. session_get [?t'] 1 = Some task' \<and>
      completed task' = False \<and> assignee_id task' = Some 1 \<and> title task' = ''a''"
    by auto
  with g u show ?thesis by blast
qed

text \<open>
  Claim C8. After a successful update of an existing task the stored row has
  \<open>updated_at\<close> equal to the time read by the call and its \<open>created_at\<close> is unchanged; when
  the request holds no field but \<open>completed\<close>, the title, description, assignee,
  priority and due date are unchanged as well, and such a request always succeeds.
\<close>

theorem update_task_completed_only:
  assumes "session_get db task_id = Some task"
  shows "(\<forall>r db'. update_task now task_id payload db = (Inr r, db') \<longrightarrow>
            (\<exists>task'. session_get db' task_id = Some task' \<and> updated_at task' = now \<and>
                      created_at task' = created_at task)) \<and>
         (u_title payload = None \<and> u_description payload = None \<and>
          u_assignee_id payload = None \<and> u_priority payload = None \<and>
          u_due_date payload = None \<longrightarrow>
            (\<exists>db' task'. update_task now task_id payload db = (Inr True, db') \<and>
               session_get db' task_id = Some task' \<and>
               title task' = title task \<and> description task' = description task \<and>
               assignee_id task' = assignee_id task \<and> priority task' = priority task \<and>
               due_date task' = due_date task \<and> created_at task' = created_at task \<and>
               updated_at task' = now))"
proof (intro conjI allI impI)
  fix r db'
  assume u: "update_task now task_id payload db = (Inr r, db')"
  from update_task_Inr[OF assms u] obtain t' where
    a: "assign_fields payload task = Inr t'" and
    g: "session_get db' task_id = Some (t'\<lparr>updated_at := now\<rparr>)"
    by blast
  have "created_at (t'\<lparr>updated_at := now\<rparr>) = created_at task"
    using assign_fields_Inr(8)[OF a] by simp
  then show "\<exists>task'. session_get db' task_id = Some task' \<and> updated_at task' = now \<and>
                      created_at task' = created_at task"
    using g by simp
next
  assume n: "u_title payload = None \<and> u_description payload = None \<and>
          u_assignee_id payload = None \<and> u_priority payload = None \<and>
          u_due_date payload = None"
  define t' where
    "t' = (case u_completed payload of None \<Rightarrow> task | Some c \<Rightarrow> task\<lparr>completed := c\<rparr>)"
  have a: "assign_fields payload task = Inr t'"
    using n by (simp add: assign_fields_def and_then_def set_title_def set_description_def
        set_assignee_id_def set_completed_def set_priority_def set_due_date_def t'_def
        split: option.splits)
  have u: "update_task now task_id payload db =
             (Inr True, update_row db (t'\<lparr>updated_at := now\<rparr>))"
    using assms a by (simp add: update_task_def)
  from update_task_Inr[OF assms u] a have
    g: "session_get (update_row db (t'\<lparr>updated_at := now\<rparr>)) task_id =
          Some (t'\<lparr>updated_at := now\<rparr>)"
    by simp
  have "title (t'\<lparr>updated_at := now\<rparr>) = title task"
    "description (t'\<lparr>updated_at := now\<rparr>) = description task"
    "assignee_id (t'\<lparr>updated_at := now\<rparr>) = assignee_id task"
    "priority (t'\<lparr>updated_at := now\<rparr>) = priority task"
    "due_date (t'\<lparr>updated_at := now\<rparr>) = due_date task"
    "created_at (t'\<lparr>updated_at := now\<rparr>) = created_at task"
    "updated_at (t'\<lparr>updated_at := now\<rparr>) = now"
    by (simp_all add: t'_def split: option.splits)
  with u g show "\<exists>db' task'. update_task now task_id payload db = (Inr True, db') \<and>
               session_get db' task_id = Some task' \<and>
               title task' = title task \<and> description task' = description task \<and>
               assignee_id task' = assignee_id task \<and> priority task' = priority task \<and>
               due_date task' = due_date task \<and> created_at task' = created_at task \<and>
               updated_at task' = now"
    by blast
qed

text \<open>
  A request that only completes the task, and a request with no field at all: both
  succeed and move \<open>updated_at\<close> from 3 to 7.
\<close>

theorem update_task_completed_only_witness:
  "session_get
     [\<lparr>id' = Some 1, title = ''a'', description = [], completed = False,
       assignee_id = Some 1, priority = ''low'', due_date = Some 5, created_at = 3,
       updated_at = 3\<rparr>] 1 =
   Some \<lparr>id' = Some 1, title = ''a'', description = [], completed = False,
       assignee_id = Some 1, priority = ''low'', due_date = Some 5, created_at = 3,
       updated_at = 3\<rparr> \<and>
   update_task 7 1
     \<lparr>u_title = None, u_description = None, u_assignee_id = None, u_completed = Some True,
      u_priority = None, u_due_date = None\<rparr>
     [\<lparr>id' = Some 1, title = ''a'', description = [], completed = False,
       assignee_id = Some 1, priority = ''low'', due_date = Some 5, created_at = 3,
       updated_at = 3\<rparr>] =
   (Inr True,
    [\<lparr>id' = Some 1, title = ''a'', description = [], completed = True,
       assignee_id = Some 1, priority = ''low'', due_date = Some 5, created_at = 3,
       updated_at = 7\<rparr>]) \<and>
   update_task 7 1
     \<lparr>u_title = None, u_description = None, u_assignee_id = None, u_completed = None,
      u_priority = None, u_due_date = None\<rparr>
     [\<lparr>id' = Some 1, title = ''a'', description = [], completed = False,
       assignee_id = Some 1, priority = ''low'', due_date = Some 5, created_at = 3,
       updated_at = 3\<rparr>] =
   (Inr True,
    [\<lparr>id' = Some 1, title = ''a'', description = [], completed = False,
       assignee_id = Some 1, priority = ''low'', due_date = Some 5, created_at = 3,
       updated_at = 7\<rparr>]) \<and>
   (\<exists>task'.
      session_get
        [\<lparr>id' = Some 1, title = ''a'', description = [], completed = True,
          assignee_id = Some 1, priority = ''low'', due_date = Some 5, created_at = 3,
          updated_at = 7\<rparr>] 1 = Some task' \<and>
      updated_at task' = 7 \<and> created_at task' = 3)"
proof -
  let ?t = "\<lparr>id' = Some 1, title = ''a'', description = [], completed = False,
       assignee_id = Some 1, priority = ''low'', due_date = Some 5, created_at = 3,
       updated_at = 3\<rparr>"
  let ?p = "\<lparr>u_title = None, u_description = None, u_assignee_id = None,
       u_completed = Some True, u_priority = None, u_due_date = None\<rparr>"
  let ?q = "\<lparr>u_title = None, u_description = None, u_assignee_id = None,
       u_completed = None, u_priority = None, u_due_date = None\<rparr>"
  let ?t' = "\<lparr>id' = Some 1, title = ''a'', description = [], completed = True,
       assignee_id = Some 1, priority = ''low'', due_date = Some 5, created_at = 3,
       updated_at = 7\<rparr>"
  have g: "session_get [?t] 1 = Some ?t" by (simp add: session_get_def)
  have u: "update_task 7 1 ?p [?t] = (Inr True, [?t'])"
    by (simp add: update_task_def session_get_def assign_fields_def
      and_then_def set_title_def set_description_def set_assignee_id_def set_completed_def
      set_priority_def set_due_date_def update_row_def)
  have v: "update_task 7 1 ?q [?t] = (Inr True, [?t\<lparr>updated_at := 7\<rparr>])"
    by (simp add: update_task_def session_get_def assign_fields_def
      and_then_def set_title_def set_description_def set_assignee_id_def set_completed_def
      set_priority_def set_due_date_def update_row_def)
  from update_task_completed_only[OF g, of 7 ?p] u have
    "\<exists>task'. session_get [?t'] 1 = Some task' \<and> updated_at task' = 7 \<and> created_at task' = 3"
    by auto
  with g u v show ?thesis by simp
qed

section \<open>Listing tasks\<close>

lemma priority_clause_cases:
  "priority_clause p =
     (if truthy p
      then (if lower (the p) = ''low'' \<or> lower (the p) = ''medium'' \<or> lower (the p) = ''high''
            then Inr (\<lambda>t. priority t = lower (the p))
            else Inl (HTTPException 400 ''priority must be one of low|medium|high''))
      else Inr (\<lambda>t. True))"
  by (cases p) (simp_all add: priority_clause_def truthy_def validate_priority_Some)

lemma list_tasks_Inl_iff:
  "list_tasks c today search status assignee prio due db = Inl e \<longleftrightarrow>
     priority_clause prio = Inl e"
  by (simp add: list_tasks_def list_rows_def split: sum.splits)

lemma list_tasks_Inr_iff:
  "list_tasks c today search status assignee prio due db = Inr vs \<longleftrightarrow>
     (\<exists>ok. priority_clause prio = Inr ok \<and>
        vs = map view (sort_key order_key
               (filter (\<lambda>t. search_clause c search t \<and> status_clause status t \<and>
                             assignee_clause assignee t \<and> ok t \<and> due_clause today due t) db)))"
  by (auto simp: list_tasks_def list_rows_def split: sum.splits)

lemma due_date_view: "due_date (view t) = due_date t"
  by (simp add: view_def)

lemma completed_view: "completed (view t) = completed t"
  by (simp add: view_def)

lemma created_at_view: "created_at (view t) = created_at t"
  by (simp add: view_def)

lemma list_tasks_due_filter:
  assumes "\<And>t. due_clause today due t = (P (view t) \<and> due_clause today None t)"
    and "list_tasks c today search status assignee prio None db = Inr vs"
  shows "list_tasks c today search status assignee prio due db = Inr (filter P vs)"
proof -
  from assms(2) obtain ok where
    ok: "priority_clause prio = Inr ok" and
    vs: "vs = map view (sort_key order_key
               (filter (\<lambda>t. search_clause c search t \<and> status_clause status t \<and>
                             assignee_clause assignee t \<and> ok t \<and> due_clause today None t) db))"
    unfolding list_tasks_Inr_iff by blast
  have "filter P vs = map view (sort_key order_key
               (filter (\<lambda>t. search_clause c search t \<and> status_clause status t \<and>
                             assignee_clause assignee t \<and> ok t \<and> due_clause today due t) db))"
    unfolding vs filter_map filter_sort filter_filter o_def assms(1)
    by (rule arg_cong[where f = "\<lambda>p. map view (sort_key order_key (filter p db))"]) auto
  then show ?thesis
    unfolding list_tasks_Inr_iff using ok by blast
qed

lemmas list_tasks_eval =
  list_tasks_def list_rows_def priority_clause_def truthy_def search_clause_def
  status_clause_def assignee_clause_def due_clause_def order_key_def view_def name_of_def
  user_map_def TEAM_MEMBERS_def

text \<open>
  Claim C10. A priority filter that is the empty string is not validated and filters
  nothing: the call returns a list, the same list as the call without the parameter.
\<close>

theorem list_tasks_empty_priority:
  "list_tasks c today search status assignee (Some []) due db =
     list_tasks c today search status assignee None due db \<and>
   (\<exists>vs. list_tasks c today search status assignee (Some []) due db = Inr vs)"
  by (simp add: list_tasks_def list_rows_def priority_clause_def truthy_def)

text \<open>
  Claim C5 says that the list operation fails exactly when a supplied priority filter is
  not recognised after lower-casing. The empty string is supplied and is not one of the
  three priorities, yet the \<open>if priority:\<close> guard skips it and the call succeeds.
\<close>

theorem list_tasks_failure_counterexample:
  "lower [] \<notin> {''low'', ''medium'', ''high''} \<and>
   list_tasks (\<lambda>column s. False) 0 None None None (Some []) None [] = Inr []"
  by (simp add: lower_def list_tasks_def list_rows_def priority_clause_def truthy_def)

text \<open>
  Claim C5 as amended. The list operation raises exactly when the priority filter is a
  non-empty string that is not \<open>low\<close>, \<open>medium\<close> or \<open>high\<close> after lower-casing, and what
  it raises is the \<open>HTTPException\<close> with status 400 of the priority validation. A
  status other than \<open>complete\<close> and \<open>incomplete\<close>, and a due value other than
  \<open>overdue\<close>, \<open>today\<close> and \<open>upcoming\<close>, give the result of the call without that
  parameter.
\<close>

theorem list_tasks_failure:
  "((\<exists>e. list_tasks c today search status assignee prio due db = Inl e) \<longleftrightarrow>
      (\<exists>p. prio = Some p \<and> p \<noteq> [] \<and> lower p \<notin> {''low'', ''medium'', ''high''})) \<and>
   (\<forall>e. list_tasks c today search status assignee prio due db = Inl e \<longrightarrow>
      e = HTTPException 400 ''priority must be one of low|medium|high'') \<and>
   (status \<noteq> Some ''complete'' \<and> status \<noteq> Some ''incomplete'' \<longrightarrow>
      list_tasks c today search status assignee prio due db =
      list_tasks c today search None assignee prio due db) \<and>
   (due \<noteq> Some ''overdue'' \<and> due \<noteq> Some ''today'' \<and> due \<noteq> Some ''upcoming'' \<longrightarrow>
      list_tasks c today search status assignee prio due db =
      list_tasks c today search status assignee prio None db)"
proof (intro conjI allI impI)
  show "(\<exists>e. list_tasks c today search status assignee prio due db = Inl e) \<longleftrightarrow>
      (\<exists>p. prio = Some p \<and> p \<noteq> [] \<and> lower p \<notin> {''low'', ''medium'', ''high''})"
    unfolding list_tasks_Inl_iff priority_clause_cases
    by (cases prio) (auto simp: truthy_def)
next
  fix e
  assume "list_tasks c today search status assignee prio due db = Inl e"
  then show "e = HTTPException 400 ''priority must be one of low|medium|high''"
    unfolding list_tasks_Inl_iff priority_clause_cases
    by (simp split: if_splits)
next
  assume "status \<noteq> Some ''complete'' \<and> status \<noteq> Some ''incomplete''"
  then have "\<And>t. status_clause status t = status_clause None t"
    by (auto simp: status_clause_def)
  then show "list_tasks c today search status assignee prio due db =
      list_tasks c today search None assignee prio due db"
    by (simp add: list_tasks_def list_rows_def split: sum.splits)
next
  assume "due \<noteq> Some ''overdue'' \<and> due \<noteq> Some ''today'' \<and> due \<noteq> Some ''upcoming''"
  then have "\<And>t. due_clause today due t = due_clause today None t"
    by (auto simp: due_clause_def)
  then show "list_tasks c today search status assignee prio due db =
      list_tasks c today search status assignee prio None db"
    by (simp add: list_tasks_def list_rows_def split: sum.splits)
qed

text \<open>
  On a table of one row: the priority \<open>"urgent"\<close> is rejected, and the unknown status
  \<open>"all"\<close> and due value \<open>"all"\<close> return the row as the call without them does.
\<close>

theorem list_tasks_failure_witness:
  "list_tasks (\<lambda>column s. False) 4 None None None (Some ''urgent'') None
     [\<lparr>id' = Some 1, title = ''a'', description = [], completed = False,
       assignee_id = Some 1, priority = ''low'', due_date = Some 5, created_at = 3,
       updated_at = 3\<rparr>] =
   Inl (HTTPException 400 ''priority must be one of low|medium|high'') \<and>
   list_tasks (\<lambda>column s. False) 4 None (Some ''all'') None None (Some ''all'')
     [\<lparr>id' = Some 1, title = ''a'', description = [], completed = False,
       assignee_id = Some 1, priority = ''low'', due_date = Some 5, created_at = 3,
       updated_at = 3\<rparr>] =
   Inr [\<lparr>id' = Some 1, title = ''a'', description = [], completed = False,
         assignee_id = Some 1, priority = ''low'', due_date = Some 5, created_at = 3,
         updated_at = 3, assignee_name = ''Harry''\<rparr>]"
proof -
  let ?c = "\<lambda>column s :: string. False"
  let ?db = "[\<lparr>id' = Some 1, title = ''a'', description = [], completed = False,
       assignee_id = Some 1, priority = ''low'', due_date = Some 5, created_at = 3,
       updated_at = 3\<rparr>]"
  have l: "lower ''urgent'' = ''urgent''" by code_simp
  have s: "Some ''all'' \<noteq> Some ''complete'' \<and> Some ''all'' \<noteq> Some ''incomplete''" by simp
  have d: "Some ''all'' \<noteq> Some ''overdue'' \<and> Some ''all'' \<noteq> Some ''today'' \<and>
           Some ''all'' \<noteq> Some ''upcoming''" by simp
  have n: "list_tasks ?c 4 None None None None None ?db =
    Inr [\<lparr>id' = Some 1, title = ''a'', description = [], completed = False,
         assignee_id = Some 1, priority = ''low'', due_date = Some 5, created_at = 3,
         updated_at = 3, assignee_name = ''Harry''\<rparr>]"
    by (simp add: list_tasks_def list_rows_def priority_clause_def truthy_def search_clause_def
        status_clause_def assignee_clause_def due_clause_def view_def name_of_def user_map_def
        TEAM_MEMBERS_def)
  note f = list_tasks_failure[of ?c 4 None None None "Some ''urgent''" None ?db]
  note g = list_tasks_failure[of ?c 4 None "Some ''all''" None None "Some ''all''" ?db]
  note h = list_tasks_failure[of ?c 4 None None None None "Some ''all''" ?db]
  have "\<exists>e. list_tasks ?c 4 None None None (Some ''urgent'') None ?db = Inl e"
    using f l by simp
  then have 1: "list_tasks ?c 4 None None None (Some ''urgent'') None ?db =
      Inl (HTTPException 400 ''priority must be one of low|medium|high'')"
    using f by blast
  have "list_tasks ?c 4 None (Some ''all'') None None (Some ''all'') ?db =
        list_tasks ?c 4 None None None None (Some ''all'') ?db"
    using g s by blast
  also have "\<dots> = list_tasks ?c 4 None None None None None ?db"
    using h d by blast
  finally show ?thesis using 1 n by simp
qed

text \<open>
  Claim C6. The call takes one date \<open>today\<close> and compares every row with it. With
  \<open>due="overdue"\<close> the result is the result of the same call without the due filter,
  restricted to the tasks whose due date is set and before \<open>today\<close>; with \<open>"today"\<close>, to
  those whose due date is \<open>today\<close>; with \<open>"upcoming"\<close>, to those whose due date is set and
  after \<open>today\<close>. The order of the tasks is kept, and a task without due date is in none
  of the three results. A call that fails without the due filter fails with it.
\<close>

theorem list_tasks_due_buckets:
  "(\<forall>e due. list_tasks c today search status assignee prio None db = Inl e \<longrightarrow>
      list_tasks c today search status assignee prio due db = Inl e) \<and>
   (\<forall>vs. list_tasks c today search status assignee prio None db = Inr vs \<longrightarrow>
      list_tasks c today search status assignee prio (Some ''overdue'') db =
        Inr (filter (\<lambda>v. \<exists>d. due_date v = Some d \<and> d < today) vs) \<and>
      list_tasks c today search status assignee prio (Some ''today'') db =
        Inr (filter (\<lambda>v. due_date v = Some today) vs) \<and>
      list_tasks c today search status assignee prio (Some ''upcoming'') db =
        Inr (filter (\<lambda>v. \<exists>d. due_date v = Some d \<and> today < d) vs))"
proof (intro conjI allI impI)
  fix e due
  assume "list_tasks c today search status assignee prio None db = Inl e"
  then show "list_tasks c today search status assignee prio due db = Inl e"
    by (simp add: list_tasks_Inl_iff)
next
  fix vs
  assume vs: "list_tasks c today search status assignee prio None db = Inr vs"
  show "list_tasks c today search status assignee prio (Some ''overdue'') db =
        Inr (filter (\<lambda>v. \<exists>d. due_date v = Some d \<and> d < today) vs)"
    by (rule list_tasks_due_filter[OF _ vs])
       (auto simp: due_clause_def due_date_view split: option.splits)
  show "list_tasks c today search status assignee prio (Some ''today'') db =
        Inr (filter (\<lambda>v. due_date v = Some today) vs)"
    by (rule list_tasks_due_filter[OF _ vs])
       (auto simp: due_clause_def due_date_view split: option.splits)
  show "list_tasks c today search status assignee prio (Some ''upcoming'') db =
        Inr (filter (\<lambda>v. \<exists>d. due_date v = Some d \<and> today < d) vs)"
    by (rule list_tasks_due_filter[OF _ vs])
       (auto simp: due_clause_def due_date_view split: option.splits)
qed

text \<open>
  With \<open>today\<close> = 5, a task without due date and a task due on day 3: the second is the
  only overdue task, and no task is due today or upcoming.
\<close>

theorem list_tasks_due_buckets_witness:
  "list_tasks (\<lambda>column s. False) 5 None None None None None
     [\<lparr>id' = Some 1, title = ''a'', description = [], completed = False,
       assignee_id = Some 1, priority = ''low'', due_date = None, created_at = 1,
       updated_at = 1\<rparr>,
      \<lparr>id' = Some 2, title = ''b'', description = [], completed = False,
       assignee_id = Some 2, priority = ''low'', due_date = Some 3, created_at = 2,
       updated_at = 2\<rparr>] =
   Inr [\<lparr>id' = Some 2, title = ''b'', description = [], completed = False,
         assignee_id = Some 2, priority = ''low'', due_date = Some 3, created_at = 2,
         updated_at = 2, assignee_name = ''John''\<rparr>,
        \<lparr>id' = Some 1, title = ''a'', description = [], completed = False,
         assignee_id = Some 1, priority = ''low'', due_date = None, created_at = 1,
         updated_at = 1, assignee_name = ''Harry''\<rparr>] \<and>
   list_tasks (\<lambda>column s. False) 5 None None None None (Some ''overdue'')
     [\<lparr>id' = Some 1, title = ''a'', description = [], completed = False,
       assignee_id = Some 1, priority = ''low'', due_date = None, created_at = 1,
       updated_at = 1\<rparr>,
      \<lparr>id' = Some 2, title = ''b'', description = [], completed = False,
       assignee_id = Some 2, priority = ''low'', due_date = Some 3, created_at = 2,
       updated_at = 2\<rparr>] =
   Inr [\<lparr>id' = Some 2, title = ''b'', description = [], completed = False,
         assignee_id = Some 2, priority = ''low'', due_date = Some 3, created_at = 2,
         updated_at = 2, assignee_name = ''John''\<rparr>] \<and>
   list_tasks (\<lambda>column s. False) 5 None None None None (Some ''today'')
     [\<lparr>id' = Some 1, title = ''a'', description = [], completed = False,
       assignee_id = Some 1, priority = ''low'', due_date = None, created_at = 1,
       updated_at = 1\<rparr>,
      \<lparr>id' = Some 2, title = ''b'', description = [], completed = False,
       assignee_id = Some 2, priority = ''low'', due_date = Some 3, created_at = 2,
       updated_at = 2\<rparr>] = Inr [] \<and>
   list_tasks (\<lambda>column s. False) 5 None None None None (Some ''upcoming'')
     [\<lparr>id' = Some 1, title = ''a'', description = [], completed = False,
       assignee_id = Some 1, priority = ''low'', due_date = None, created_at = 1,
       updated_at = 1\<rparr>,
      \<lparr>id' = Some 2, title = ''b'', description = [], completed = False,
       assignee_id = Some 2, priority = ''low'', due_date = Some 3, created_at = 2,
       updated_at = 2\<rparr>] = Inr []"
proof -
  let ?c = "\<lambda>column s :: string. False"
  let ?db = "[\<lparr>id' = Some 1, title = ''a'', description = [], completed = False,
       assignee_id = Some 1, priority = ''low'', due_date = None, created_at = 1,
       updated_at = 1\<rparr>,
      \<lparr>id' = Some 2, title = ''b'', description = [], completed = False,
       assignee_id = Some 2, priority = ''low'', due_date = Some 3, created_at = 2,
       updated_at = 2\<rparr>]"
  have n: "list_tasks ?c 5 None None None None None ?db =
    Inr [\<lparr>id' = Some 2, title = ''b'', description = [], completed = False,
         assignee_id = Some 2, priority = ''low'', due_date = Some 3, created_at = 2,
         updated_at = 2, assignee_name = ''John''\<rparr>,
        \<lparr>id' = Some 1, title = ''a'', description = [], completed = False,
         assignee_id = Some 1, priority = ''low'', due_date = None, created_at = 1,
         updated_at = 1, assignee_name = ''Harry''\<rparr>]"
    by (simp add: list_tasks_eval)
  from list_tasks_due_buckets[of ?c 5 None None None None ?db] n show ?thesis
    by simp
qed

text \<open>
  Claim C4. Whatever the table and the filters, in the list returned a completed task
  never comes before an incomplete one, and of two tasks with the same \<open>completed\<close>
  flag the one listed first was not created earlier; the list holds exactly the rows of
  the table that pass every filter, each once. For three rows A (incomplete), B
  (completed) and C (incomplete) created in this order, the unfiltered list is C, A, B.
\<close>

theorem list_tasks_ordering:
  "(\<forall>vs. list_tasks c today search status assignee prio due db = Inr vs \<longrightarrow>
      (\<forall>i j. i < j \<and> j < length vs \<longrightarrow>
         (completed (vs ! i) \<longrightarrow> completed (vs ! j)) \<and>
         (completed (vs ! i) = completed (vs ! j) \<longrightarrow>
            created_at (vs ! j) \<le> created_at (vs ! i))) \<and>
      mset vs =
        mset (map view
          (filter (\<lambda>t. search_clause c search t \<and> status_clause status t \<and>
                        assignee_clause assignee t \<and>
                        (truthy prio \<longrightarrow> priority t = lower (the prio)) \<and>
                        due_clause today due t) db))) \<and>
   (\<not> completed A \<and> completed B \<and> \<not> completed C \<and>
    created_at A < created_at B \<and> created_at B < created_at C \<longrightarrow>
      list_tasks c today None None None None None [A, B, C] = Inr [view C, view A, view B])"
proof -
  have sorted_part: "(completed (vs ! i) \<longrightarrow> completed (vs ! j)) \<and>
         (completed (vs ! i) = completed (vs ! j) \<longrightarrow>
            created_at (vs ! j) \<le> created_at (vs ! i))"
    if vs: "list_tasks c today search status assignee prio due db = Inr vs"
      and ij: "i < j \<and> j < length vs" for vs i j
  proof -
    from vs obtain rows where
      rows: "vs = map view rows" and s: "sorted (map order_key rows)"
      unfolding list_tasks_Inr_iff by (auto simp: sorted_sort_key)
    have "order_key (rows ! i) \<le> order_key (rows ! j)"
      using sorted_nth_mono[OF s, of i j] ij rows by simp
    then have k: "(completed (rows ! i) \<longrightarrow> completed (rows ! j)) \<and>
        (completed (rows ! i) = completed (rows ! j) \<longrightarrow>
           created_at (rows ! j) \<le> created_at (rows ! i))"
      by (auto simp: order_key_def less_eq_prod_def)
    have v: "vs ! i = view (rows ! i)" "vs ! j = view (rows ! j)"
      using ij rows by simp_all
    show ?thesis
      using k by (simp add: v completed_view created_at_view)
  qed
  have content_part: "mset vs =
        mset (map view
          (filter (\<lambda>t. search_clause c search t \<and> status_clause status t \<and>
                        assignee_clause assignee t \<and>
                        (truthy prio \<longrightarrow> priority t = lower (the prio)) \<and>
                        due_clause today due t) db))"
    if vs: "list_tasks c today search status assignee prio due db = Inr vs" for vs
  proof -
    from vs obtain ok where
      ok: "priority_clause prio = Inr ok" and
      r: "vs = map view (sort_key order_key
                 (filter (\<lambda>t. search_clause c search t \<and> status_clause status t \<and>
                               assignee_clause assignee t \<and> ok t \<and> due_clause today due t) db))"
      unfolding list_tasks_Inr_iff by blast
    have "ok = (\<lambda>t. truthy prio \<longrightarrow> priority t = lower (the prio))"
      using ok unfolding priority_clause_cases by (auto split: if_splits)
    then show ?thesis
      unfolding r by simp
  qed
  have example_part: "list_tasks c today None None None None None [A, B, C] =
      Inr [view C, view A, view B]"
    if "\<not> completed A \<and> completed B \<and> \<not> completed C \<and>
      created_at A < created_at B \<and> created_at B < created_at C"
    using that
    by (simp add: list_tasks_def list_rows_def priority_clause_def truthy_def
        search_clause_def status_clause_def assignee_clause_def due_clause_def order_key_def)
  from sorted_part content_part example_part show ?thesis
    by blast
qed

text \<open>The three tasks of the claim, created at the times 10, 20 and 30.\<close>

theorem list_tasks_ordering_witness:
  "list_tasks (\<lambda>column s. False) 5 None None None None None
     [\<lparr>id' = Some 1, title = ''A'', description = [], completed = False,
       assignee_id = Some 1, priority = ''low'', due_date = None, created_at = 10,
       updated_at = 10\<rparr>,
      \<lparr>id' = Some 2, title = ''B'', description = [], completed = True,
       assignee_id = Some 2, priority = ''low'', due_date = None, created_at = 20,
       updated_at = 20\<rparr>,
      \<lparr>id' = Some 3, title = ''C'', description = [], completed = False,
       assignee_id = Some 3, priority = ''low'', due_date = None, created_at = 30,
       updated_at = 30\<rparr>] =
   Inr [\<lparr>id' = Some 3, title = ''C'', description = [], completed = False,
         assignee_id = Some 3, priority = ''low'', due_date = None, created_at = 30,
         updated_at = 30, assignee_name = ''Peter''\<rparr>,
        \<lparr>id' = Some 1, title = ''A'', description = [], completed = False,
         assignee_id = Some 1, priority = ''low'', due_date = None, created_at = 10,
         updated_at = 10, assignee_name = ''Harry''\<rparr>,
        \<lparr>id' = Some 2, title = ''B'', description = [], completed = True,
         assignee_id = Some 2, priority = ''low'', due_date = None, created_at = 20,
         updated_at = 20, assignee_name = ''John''\<rparr>]"
proof -
  let ?A = "\<lparr>id' = Some 1, title = ''A'', description = [], completed = False,
       assignee_id = Some 1, priority = ''low'', due_date = None, created_at = 10,
       updated_at = 10\<rparr>"
  let ?B = "\<lparr>id' = Some 2, title = ''B'', description = [], completed = True,
       assignee_id = Some 2, priority = ''low'', due_date = None, created_at = 20,
       updated_at = 20\<rparr>"
  let ?C = "\<lparr>id' = Some 3, title = ''C'', description = [], completed = False,
       assignee_id = Some 3, priority = ''low'', due_date = None, created_at = 30,
       updated_at = 30\<rparr>"
  have h: "\<not> completed ?A \<and> completed ?B \<and> \<not> completed ?C \<and>
    created_at ?A < created_at ?B \<and> created_at ?B < created_at ?C"
    by simp
  from list_tasks_ordering[of "\<lambda>column s. False" 5 None None None None None "[]" ?A ?B ?C] h
  have "list_tasks (\<lambda>column s. False) 5 None None None None None [?A, ?B, ?C] =
      Inr [view ?C, view ?A, view ?B]"
    by blast
  then show ?thesis
    by (simp add: view_def name_of_def user_map_def TEAM_MEMBERS_def)
qed

section \<open>Invariants of the stored tasks\<close>

lemma strip_not_blank:
  assumes "strip s \<noteq> []"
  shows "\<not> list_all isspace (strip s)"
proof -
  let ?ys = "dropWhile isspace (rev (dropWhile isspace s))"
  have ne: "?ys \<noteq> []" using assms by (simp add: strip_def)
  then have "\<not> isspace (hd ?ys)" by (rule hd_dropWhile)
  moreover have "hd ?ys \<in> set ?ys" using ne by simp
  ultimately have "\<exists>ch\<in>set (strip s). \<not> isspace ch"
    unfolding strip_def by auto
  then show ?thesis by (simp add: list_all_iff)
qed

lemma assign_fields_valid:
  assumes "assign_fields p t = Inr t'"
  shows "(\<forall>s. u_title p = Some s \<longrightarrow> strip s \<noteq> []) \<and>
         (\<forall>a. u_assignee_id p = Some a \<longrightarrow> user_exists (Some a)) \<and>
         (\<forall>s. u_priority p = Some s \<longrightarrow> lower s \<in> {''low'', ''medium'', ''high''})"
proof -
  from assms obtain t1 t2 t3 t4 t5 where
    s: "set_title p t = Inr t1" "set_description p t1 = Inr t2" "set_assignee_id p t2 = Inr t3"
       "set_completed p t3 = Inr t4" "set_priority p t4 = Inr t5" "set_due_date p t5 = Inr t'"
    unfolding assign_fields_def and_then_Inr_iff by blast
  from s(1) s(3) s(5) show ?thesis
    by (auto simp: set_title_Inr set_assignee_id_Inr set_priority_Inr split: option.splits)
qed

lemma assign_fields_valid_fields:
  assumes a: "assign_fields p t = Inr t'" and t: "valid_fields t"
  shows "valid_fields (t'\<lparr>updated_at := now\<rparr>)"
proof -
  note v = assign_fields_valid[OF a]
  have "title t' \<noteq> [] \<and> \<not> list_all isspace (title t')"
    using assign_fields_Inr(2)[OF a] v t strip_not_blank
    by (auto simp: valid_fields_def split: option.splits)
  moreover have "assignee_id t' = None \<or> user_exists (assignee_id t')"
    using assign_fields_Inr(4)[OF a] v t
    by (auto simp: valid_fields_def split: option.splits)
  moreover have "priority t' \<in> {''low'', ''medium'', ''high''}"
    using assign_fields_Inr(6)[OF a] v t
    by (auto simp: valid_fields_def split: option.splits)
  ultimately show ?thesis by (simp add: valid_fields_def)
qed

lemma create_task_cases:
  "create_task now1 now2 p db =
     (if strip (c_title p) = [] then (Inl (HTTPException 400 ''title is required''), db)
      else if \<not> user_exists (c_assignee_id p)
      then (Inl (HTTPException 400 ''assignee_id is invalid''), db)
      else if lower (c_priority p) \<notin> {''low'', ''medium'', ''high''}
      then (Inl (HTTPException 400 ''priority must be one of low|medium|high''), db)
      else (Inr (next_id db),
            db @ [\<lparr>id' = Some (next_id db), title = strip (c_title p),
                   description = strip (c_description p), completed = False,
                   assignee_id = c_assignee_id p, priority = lower (c_priority p),
                   due_date = c_due_date p, created_at = now1, updated_at = now2\<rparr>]))"
  by (simp add: create_task_def Let_def insert_row_def validate_priority_Some)

text \<open>
  One request keeps two properties of the table: \<open>valid_fields\<close> of every row, and, when
  the clock readings of this request and of the later ones (\<open>L\<close>) never decrease, that
  every row's \<open>created_at\<close> is neither after its \<open>updated_at\<close> nor after a later reading.
\<close>

lemma step_cases:
  "step req db = db \<or>
   (\<exists>now1 now2 p. req = Create now1 now2 p \<and>
      strip (c_title p) \<noteq> [] \<and> user_exists (c_assignee_id p) \<and>
      lower (c_priority p) \<in> {''low'', ''medium'', ''high''} \<and>
      step req db =
        db @ [\<lparr>id' = Some (next_id db), title = strip (c_title p),
               description = strip (c_description p), completed = False,
               assignee_id = c_assignee_id p, priority = lower (c_priority p),
               due_date = c_due_date p, created_at = now1, updated_at = now2\<rparr>]) \<or>
   (\<exists>now i p t t'. req = Update now i p \<and> t \<in> set db \<and> assign_fields p t = Inr t' \<and>
      step req db = update_row db (t'\<lparr>updated_at := now\<rparr>)) \<or>
   (\<exists>i t. req = Delete i \<and> step req db = delete_row db t)"
proof (cases req)
  case (Create now1 now2 p)
  then show ?thesis by (auto simp: create_task_cases)
next
  case (Update now i p)
  show ?thesis
  proof (cases "session_get db i")
    case None
    then show ?thesis using Update by (simp add: update_task_def)
  next
    case (Some t)
    then have "t \<in> set db" by (simp add: session_get_Some)
    then show ?thesis
      using Update Some by (cases "assign_fields p t") (auto simp: update_task_def)
  qed
next
  case (Delete i)
  then show ?thesis by (auto simp: delete_task_def split: option.splits)
qed

lemma set_update_row: "set (update_row db t) \<subseteq> insert t (set db)"
  by (auto simp: update_row_def)

lemma set_delete_row: "set (delete_row db t) \<subseteq> set db"
  by (auto simp: delete_row_def)

lemma step_valid_fields:
  assumes db: "\<forall>t\<in>set db. valid_fields t"
  shows "\<forall>t\<in>set (step req db). valid_fields t"
  using step_cases[of req db]
proof (elim disjE exE conjE)
  assume "step req db = db"
  then show ?thesis using db by simp
next
  fix now1 now2 :: datetime and p :: TaskCreate
  let ?new = "\<lparr>id' = Some (next_id db), title = strip (c_title p),
               description = strip (c_description p), completed = False,
               assignee_id = c_assignee_id p, priority = lower (c_priority p),
               due_date = c_due_date p, created_at = now1, updated_at = now2\<rparr>"
  assume ok: "strip (c_title p) \<noteq> []" "user_exists (c_assignee_id p)"
    "lower (c_priority p) \<in> {''low'', ''medium'', ''high''}"
    and st: "step req db = db @ [?new]"
  have "valid_fields ?new"
    using ok strip_not_blank[OF ok(1)] by (simp add: valid_fields_def)
  then show ?thesis using st db by simp
next
  fix now i p t t'
  assume t: "t \<in> set db" and a: "assign_fields p t = Inr t'"
    and st: "step req db = update_row db (t'\<lparr>updated_at := now\<rparr>)"
  have "valid_fields (t'\<lparr>updated_at := now\<rparr>)"
    using assign_fields_valid_fields[OF a] db t by blast
  then show ?thesis using st db set_update_row[of db "t'\<lparr>updated_at := now\<rparr>"] by auto
next
  fix i t
  assume "step req db = delete_row db t"
  then show ?thesis using db set_delete_row[of db t] by auto
qed

lemma step_times:
  assumes s: "sorted (clock_reads req @ L)"
    and db: "\<forall>t\<in>set db. created_at t \<le> updated_at t \<and>
                (\<forall>x\<in>set (clock_reads req @ L). created_at t \<le> x)"
  shows "\<forall>t\<in>set (step req db). created_at t \<le> updated_at t \<and>
            (\<forall>x\<in>set L. created_at t \<le> x)"
  using step_cases[of req db]
proof (elim disjE exE conjE)
  assume "step req db = db"
  then show ?thesis using db by simp
next
  fix now1 now2 :: datetime and p :: TaskCreate
  let ?new = "\<lparr>id' = Some (next_id db), title = strip (c_title p),
               description = strip (c_description p), completed = False,
               assignee_id = c_assignee_id p, priority = lower (c_priority p),
               due_date = c_due_date p, created_at = now1, updated_at = now2\<rparr>"
  assume req: "req = Create now1 now2 p" and st: "step req db = db @ [?new]"
  have "now1 \<le> now2" "\<forall>x\<in>set L. now1 \<le> x"
    using s req by auto
  then show ?thesis using st db by simp
next
  fix now i p t t'
  assume req: "req = Update now i p" and t: "t \<in> set db"
    and a: "assign_fields p t = Inr t'"
    and st: "step req db = update_row db (t'\<lparr>updated_at := now\<rparr>)"
  have c: "created_at (t'\<lparr>updated_at := now\<rparr>) = created_at t"
    using assign_fields_Inr(8)[OF a] by simp
  have "created_at t \<le> now" "\<forall>x\<in>set L. created_at t \<le> x"
    using db t req by simp_all
  then have "created_at (t'\<lparr>updated_at := now\<rparr>) \<le> updated_at (t'\<lparr>updated_at := now\<rparr>) \<and>
      (\<forall>x\<in>set L. created_at (t'\<lparr>updated_at := now\<rparr>) \<le> x)"
    using c by simp
  then show ?thesis using st db set_update_row[of db "t'\<lparr>updated_at := now\<rparr>"] by auto
next
  fix i t
  assume "step req db = delete_row db t"
  then show ?thesis using db set_delete_row[of db t] by auto
qed

lemma fold_step_valid_fields:
  assumes "\<forall>t\<in>set db. valid_fields t"
  shows "\<forall>t\<in>set (fold step reqs db). valid_fields t"
  using assms
proof (induction reqs arbitrary: db)
  case Nil
  then show ?case by simp
next
  case (Cons req reqs)
  have "\<forall>t\<in>set (step req db). valid_fields t"
    using Cons.prems by (rule step_valid_fields)
  from Cons.IH[OF this] show ?case by simp
qed

lemma fold_step_times:
  assumes "sorted (concat (map clock_reads reqs))"
    and "\<forall>t\<in>set db. created_at t \<le> updated_at t \<and>
           (\<forall>x\<in>set (concat (map clock_reads reqs)). created_at t \<le> x)"
  shows "\<forall>t\<in>set (fold step reqs db). created_at t \<le> updated_at t"
  using assms
proof (induction reqs arbitrary: db)
  case Nil
  then show ?case by simp
next
  case (Cons req reqs)
  let ?L = "concat (map clock_reads reqs)"
  have c: "concat (map clock_reads (req # reqs)) = clock_reads req @ ?L"
    by simp
  have s: "sorted (clock_reads req @ ?L)"
    using Cons.prems(1) unfolding c .
  have p: "\<forall>t\<in>set db. created_at t \<le> updated_at t \<and>
             (\<forall>x\<in>set (clock_reads req @ ?L). created_at t \<le> x)"
    using Cons.prems(2) unfolding c .
  have q: "\<forall>t\<in>set (step req db). created_at t \<le> updated_at t \<and>
             (\<forall>x\<in>set ?L. created_at t \<le> x)"
    using s p by (rule step_times)
  have r: "sorted ?L"
    using s sorted_append by blast
  have "\<forall>t\<in>set (fold step reqs (step req db)). created_at t \<le> updated_at t"
    using r q by (rule Cons.IH)
  then show ?case by simp
qed

text \<open>
  Claim C9 says that every task reachable by creates, updates and deletes satisfies the
  four invariants. Nothing in the handlers compares \<open>updated_at\<close> with \<open>created_at\<close>:
  both are whatever the clock shows when it is read. A task created when the clock shows
  10 and updated when it shows 5 is stored with \<open>updated_at\<close> before \<open>created_at\<close>.
\<close>

theorem reachable_tasks_counterexample:
  "fold step
     [Create 10 10
        \<lparr>c_title = ''a'', c_description = [], c_assignee_id = Some 1, c_priority = ''low'',
         c_due_date = None\<rparr>,
      Update 5 1
        \<lparr>u_title = None, u_description = None, u_assignee_id = None,
         u_completed = Some True, u_priority = None, u_due_date = None\<rparr>] [] =
   [\<lparr>id' = Some 1, title = ''a'', description = [], completed = True,
      assignee_id = Some 1, priority = ''low'', due_date = None, created_at = 10,
      updated_at = 5\<rparr>] \<and>
   updated_at
     \<lparr>id' = Some 1, title = ''a'', description = [], completed = True,
      assignee_id = Some 1, priority = ''low'', due_date = None, created_at = 10,
      updated_at = 5\<rparr> <
   created_at
     \<lparr>id' = Some 1, title = ''a'', description = [], completed = True,
      assignee_id = Some 1, priority = ''low'', due_date = None, created_at = 10,
      updated_at = 5\<rparr>"
proof -
  have a: "strip ''a'' = ''a''" by code_simp
  have l: "lower ''low'' = ''low''" by code_simp
  have e: "strip [] = []" by (simp add: strip_def)
  have u: "user_exists (Some 1)" by (simp add: user_exists_def TEAM_MEMBERS_def)
  show ?thesis
    by (simp add: create_task_cases a l e u next_id_def update_task_def session_get_def
        assign_fields_def and_then_def set_title_def set_description_def set_assignee_id_def
        set_completed_def set_priority_def set_due_date_def update_row_def)
qed

text \<open>
  Claim C9 as amended. Every task in the table reached from the empty table by any
  sequence of create, update and delete requests has a title that is neither empty nor
  made of whitespace only, an assignee that is null or a team member, and a priority
  among \<open>low\<close>, \<open>medium\<close>, \<open>high\<close>; when the times shown by the clock, in the order in
  which the requests read it, never decrease, its \<open>updated_at\<close> is not before its
  \<open>created_at\<close>.
\<close>

theorem reachable_tasks_invariants:
  assumes "t \<in> set (fold step reqs [])"
  shows "title t \<noteq> [] \<and> \<not> list_all isspace (title t) \<and>
         (assignee_id t = None \<or> user_exists (assignee_id t)) \<and>
         priority t \<in> {''low'', ''medium'', ''high''} \<and>
         (sorted (concat (map clock_reads reqs)) \<longrightarrow> created_at t \<le> updated_at t)"
proof -
  have "valid_fields t"
    using fold_step_valid_fields[of "[]" reqs] assms by simp
  moreover have "created_at t \<le> updated_at t" if "sorted (concat (map clock_reads reqs))"
    using fold_step_times[OF that, of "[]"] assms by simp
  ultimately show ?thesis by (simp add: valid_fields_def)
qed

text \<open>
  Two creates, an update of the first task and the deletion of the second, with the
  clock showing 1, 2, 3, 4 and 5.
\<close>

theorem reachable_tasks_invariants_witness:
  "sorted (concat (map clock_reads
     [Create 1 2
        \<lparr>c_title = '' a '', c_description = [], c_assignee_id = Some 1,
         c_priority = ''HIGH'', c_due_date = None\<rparr>,
      Create 3 4
        \<lparr>c_title = ''b'', c_description = [], c_assignee_id = Some 2,
         c_priority = ''low'', c_due_date = None\<rparr>,
      Update 5 1
        \<lparr>u_title = None, u_description = None, u_assignee_id = Some 4,
         u_completed = Some True, u_priority = None, u_due_date = None\<rparr>,
      Delete 2])) \<and>
   fold step
     [Create 1 2
        \<lparr>c_title = '' a '', c_description = [], c_assignee_id = Some 1,
         c_priority = ''HIGH'', c_due_date = None\<rparr>,
      Create 3 4
        \<lparr>c_title = ''b'', c_description = [], c_assignee_id = Some 2,
         c_priority = ''low'', c_due_date = None\<rparr>,
      Update 5 1
        \<lparr>u_title = None, u_description = None, u_assignee_id = Some 4,
         u_completed = Some True, u_priority = None, u_due_date = None\<rparr>,
      Delete 2] [] =
   [\<lparr>id' = Some 1, title = ''a'', description = [], completed = True,
      assignee_id = Some 4, priority = ''high'', due_date = None, created_at = 1,
      updated_at = 5\<rparr>] \<and>
   \<not> list_all isspace ''a'' \<and> user_exists (Some 4) \<and> (1::int) \<le> 5"
proof -
  let ?reqs = "[Create 1 2
        \<lparr>c_title = '' a '', c_description = [], c_assignee_id = Some 1,
         c_priority = ''HIGH'', c_due_date = None\<rparr>,
      Create 3 4
        \<lparr>c_title = ''b'', c_description = [], c_assignee_id = Some 2,
         c_priority = ''low'', c_due_date = None\<rparr>,
      Update 5 1
        \<lparr>u_title = None, u_description = None, u_assignee_id = Some 4,
         u_completed = Some True, u_priority = None, u_due_date = None\<rparr>,
      Delete 2]"
  let ?t = "\<lparr>id' = Some 1, title = ''a'', description = [], completed = True,
      assignee_id = Some 4, priority = ''high'', due_date = None, created_at = 1,
      updated_at = 5\<rparr>"
  have a: "strip '' a '' = ''a''" "strip ''b'' = ''b''" by code_simp+
  have l: "lower ''HIGH'' = ''high''" "lower ''low'' = ''low''" by code_simp+
  have e: "strip [] = []" by (simp add: strip_def)
  have u: "user_exists (Some 1)" "user_exists (Some 2)" "user_exists (Some 4)"
    by (simp_all add: user_exists_def TEAM_MEMBERS_def)
  have s: "sorted (concat (map clock_reads ?reqs))" by simp
  have f: "fold step ?reqs [] = [?t]"
    by (simp add: create_task_cases a l e u next_id_def update_task_def session_get_def
        assign_fields_def and_then_def set_title_def set_description_def set_assignee_id_def
        set_completed_def set_priority_def set_due_date_def update_row_def delete_task_def
        delete_row_def)
  have "?t \<in> set (fold step ?reqs [])" by (simp only: f list.set_intros)
  from reachable_tasks_invariants[OF this] s have
    "\<not> list_all isspace ''a'' \<and> user_exists (Some 4) \<and> (1::int) \<le> 5"
    by simp
  with s f show ?thesis by blast
qed

end
